theory Spec2Isabelle
  imports Main
begin

section \<open>Values exchanged with the outside\<close>

text \<open>
  The module \<^verbatim>\<open>src/list.js\<close> holds three source files: the list handler (lines 1-28), the
  browser-side helper library (lines 29-184) and the delete handler (lines 185-206).
  JavaScript values that cross the module's boundary (request bodies, parsed responses,
  table items, upload results) are modelled by \<open>js\<close>; numbers are the integers the
  code meets (millisecond timestamps, status codes, counts).
\<close>

datatype js =
    Undefined
  | Null
  | Bool bool
  | Num int
  | Str string
  | Arr "js list"
  | Obj "(string \<times> js) list"

text \<open>JavaScript truthiness, as used by \<^verbatim>\<open>body ? JSON.stringify(body) : body\<close>.\<close>

fun truthy :: "js \<Rightarrow> bool" where
  "truthy Undefined = False"
| "truthy Null = False"
| "truthy (Bool b) = b"
| "truthy (Num n) = (n \<noteq> 0)"
| "truthy (Str s) = (s \<noteq> [])"
| "truthy (Arr _) = True"
| "truthy (Obj _) = True"

text \<open>
  Errors. The library creates \<^verbatim>\<open>new Error(message)\<close> itself in two places; a property read
  on a missing object is a \<^verbatim>\<open>TypeError\<close>; everything else is a value of type \<open>'e\<close> with
  which an outside service rejected, passed on as it is.
\<close>

datatype 'e error = Error string | TypeError | Thrown 'e

section \<open>Configuration, credentials and the outside services\<close>

text \<open>\<^verbatim>\<open>../config\<close> is not part of the sources; its constants are a parameter.\<close>

record config =
  cognito_USER_POOL_ID :: string
  cognito_APP_CLIENT_ID :: string
  cognito_REGION :: string
  cognito_IDENTITY_POOL_ID :: string
  apiGateway_REGION :: string
  apiGateway_URL :: string
  s3_BUCKET :: string

datatype user = CognitoUser string

text \<open>The argument of \<^verbatim>\<open>new AWS.CognitoIdentityCredentials({IdentityPoolId, Logins})\<close>.\<close>

record cognito_params =
  IdentityPoolId :: "string option"
  Logins :: "(string \<times> string) list"

text \<open>
  The object held in \<^verbatim>\<open>AWS.config.credentials\<close>. \<open>expireTime\<close> is a date, as its
  millisecond time value, or \<^verbatim>\<open>null\<close> (\<open>None\<close>); the other fields are \<^verbatim>\<open>undefined\<close>
  (\<open>None\<close>) until a refresh fills them.
\<close>

record credentials =
  params :: cognito_params
  expireTime :: "int option"
  accessKeyId :: "string option"
  secretAccessKey :: "string option"
  sessionToken :: "string option"
  identityId :: "string option"

text \<open>What a successful credential exchange delivers.\<close>

record grant =
  grant_accessKeyId :: string
  grant_secretAccessKey :: string
  grant_sessionToken :: string
  grant_expireTime :: int
  grant_identityId :: string

text \<open>The request signer \<^verbatim>\<open>sigV4Client\<close>: its client settings, request and result.\<close>

record signer_client =
  accessKey :: "string option"
  secretKey :: "string option"
  client_sessionToken :: "string option"
  region :: string
  endpoint :: string

record request =
  req_method :: string
  req_path :: string
  req_headers :: "(string \<times> string) list"
  req_queryParams :: "(string \<times> string) list"
  req_body :: js

record signed_request =
  signed_headers :: "(string \<times> string) list"
  signed_url :: string

text \<open>The second argument of \<^verbatim>\<open>fetch\<close> and the response it resolves with.\<close>

record fetch_init =
  init_method :: string
  init_headers :: "(string \<times> string) list"
  init_body :: js

record response =
  status :: int
  text_body :: string

record upload_file =
  file_name :: string
  file_type :: string
  file_content :: string

record upload_params =
  Bucket :: string
  Key :: string
  Body :: upload_file
  ContentType :: string
  ACL :: string

text \<open>
  The outside services, as what they answer: \<open>times\<close> is the sequence of values that
  successive calls of \<^verbatim>\<open>Date.now()\<close> return, \<open>getSession\<close> what the identity provider's
  callback receives for a user (an error, or the JWT of the session's id token),
  \<open>refresh\<close> how \<^verbatim>\<open>getPromise()\<close> settles for the given login parameters, \<open>signRequest\<close>
  the signer (a pure function), \<open>fetch\<close> and \<open>upload\<close> how the HTTP transport and the
  object storage settle, \<open>JSON_stringify\<close> and \<open>JSON_parse\<close> the built-in serialiser and the
  parser behind \<^verbatim>\<open>results.json()\<close>.
\<close>

record 'e services =
  times :: "nat \<Rightarrow> int"
  getSession :: "user \<Rightarrow> 'e + string"
  refresh :: "cognito_params \<Rightarrow> 'e + grant"
  signRequest :: "signer_client \<Rightarrow> request \<Rightarrow> signed_request"
  fetch :: "string \<Rightarrow> fetch_init \<Rightarrow> 'e + response"
  upload :: "upload_params \<Rightarrow> 'e + js"
  JSON_stringify :: "js \<Rightarrow> string"
  JSON_parse :: "string \<Rightarrow> 'e + js"

text \<open>Every call that leaves the module is recorded, in order.\<close>

datatype call =
    GetCurrentUser string string
  | GetSession user
  | SignOut user
  | ConfigUpdate string
  | NewCredentials cognito_params
  | GetPromise
  | ClearCachedId
  | SignRequest signer_client request
  | Fetch string fetch_init
  | S3Upload upload_params

text \<open>
  The process-wide state: \<^verbatim>\<open>AWS.config.credentials\<close> (\<open>None\<close> when unset),
  \<^verbatim>\<open>AWS.config.region\<close>, the user the identity provider has signed in, the number of
  clock readings made so far, and the calls made so far.
\<close>

record world =
  AWS_credentials :: "credentials option"
  AWS_region :: "string option"
  currentUser :: "user option"
  ticks :: nat
  calls :: "call list"

section \<open>The helper library (lines 29-184)\<close>

definition Date_now :: "'e services \<Rightarrow> world \<Rightarrow> int \<times> world" where
  "Date_now sv w = (times sv (ticks w), w\<lparr>ticks := Suc (ticks w)\<rparr>)"

text \<open>\<^verbatim>\<open>expireTime - 60000\<close> converts its left operand to a number: \<^verbatim>\<open>null\<close> becomes 0.\<close>

definition ToNumber :: "int option \<Rightarrow> int" where
  "ToNumber d = (case d of None \<Rightarrow> 0 | Some t \<Rightarrow> t)"

text \<open>
  The condition of lines 37-40,
  \<^verbatim>\<open>AWS.config.credentials && Date.now() < AWS.config.credentials.expireTime - 60000\<close>.
  \<^verbatim>\<open>&&\<close> reads the clock only when credentials are present.
\<close>

definition hasValidCredentials :: "'e services \<Rightarrow> world \<Rightarrow> bool \<times> world" where
  "hasValidCredentials sv w =
     (case AWS_credentials w of
        None \<Rightarrow> (False, w)
      | Some c \<Rightarrow>
          (case Date_now sv w of
             (now, w') \<Rightarrow> (now < ToNumber (expireTime c) - 60000, w')))"

text \<open>
  Lines 71-77. The configured pool and client ids are taken to be well formed, so that
  \<^verbatim>\<open>new CognitoUserPool\<close> returns; \<open>currentUser\<close> is then what the pool reports, a user or
  \<^verbatim>\<open>null\<close>.
\<close>

definition getCurrentUser :: "config \<Rightarrow> world \<Rightarrow> user option \<times> world" where
  "getCurrentUser cfg w =
     (currentUser w,
      w\<lparr>calls := calls w @ [GetCurrentUser (cognito_USER_POOL_ID cfg) (cognito_APP_CLIENT_ID cfg)]\<rparr>)"

text \<open>Lines 59-69: the promise rejects with the callback's error, or resolves with the token.\<close>

definition getUserToken :: "'e services \<Rightarrow> user \<Rightarrow> world \<Rightarrow> ('e + string) \<times> world" where
  "getUserToken sv u w =
     (case getSession sv u of
        Inl err \<Rightarrow> (Inl err, w\<lparr>calls := calls w @ [GetSession u]\<rparr>)
      | Inr jwt \<Rightarrow> (Inr jwt, w\<lparr>calls := calls w @ [GetSession u]\<rparr>))"

text \<open>
  \<^verbatim>\<open>new AWS.CognitoIdentityCredentials(p)\<close>: an object that remembers \<open>p\<close> and holds no
  keys and no expiry yet.
\<close>

definition CognitoIdentityCredentials :: "cognito_params \<Rightarrow> credentials" where
  "CognitoIdentityCredentials p =
     \<lparr>params = p, expireTime = None, accessKeyId = None, secretAccessKey = None,
      sessionToken = None, identityId = None\<rparr>"

definition fill :: "grant \<Rightarrow> credentials \<Rightarrow> credentials" where
  "fill g c =
     c\<lparr>expireTime := Some (grant_expireTime g),
       accessKeyId := Some (grant_accessKeyId g),
       secretAccessKey := Some (grant_secretAccessKey g),
       sessionToken := Some (grant_sessionToken g),
       identityId := Some (grant_identityId g)\<rparr>"

text \<open>
  Lines 79-92. The new credentials object is stored before the exchange is awaited, so a
  failed exchange leaves the unfilled object in \<^verbatim>\<open>AWS.config.credentials\<close>.
\<close>

definition getAwsCredentials :: "config \<Rightarrow> 'e services \<Rightarrow> string \<Rightarrow> world \<Rightarrow> ('e + unit) \<times> world" where
  "getAwsCredentials cfg sv userToken w =
     (let authenticator =
            ''cognito-idp.'' @ cognito_REGION cfg @ ''.amazonaws.com/'' @ cognito_USER_POOL_ID cfg;
          p = \<lparr>IdentityPoolId = Some (cognito_IDENTITY_POOL_ID cfg),
               Logins = [(authenticator, userToken)]\<rparr>;
          c = CognitoIdentityCredentials p;
          w1 = w\<lparr>AWS_region := Some (cognito_REGION cfg),
                 AWS_credentials := Some c,
                 calls := calls w @ [ConfigUpdate (cognito_REGION cfg), NewCredentials p, GetPromise]\<rparr>
      in case refresh sv p of
           Inl err \<Rightarrow> (Inl err, w1)
         | Inr g \<Rightarrow> (Inr (), w1\<lparr>AWS_credentials := Some (fill g c)\<rparr>))"

text \<open>Lines 35-57.\<close>

definition authUser :: "config \<Rightarrow> 'e services \<Rightarrow> world \<Rightarrow> ('e + bool) \<times> world" where
  "authUser cfg sv w =
     (case hasValidCredentials sv w of
        (True, w1) \<Rightarrow> (Inr True, w1)
      | (False, w1) \<Rightarrow>
          (case getCurrentUser cfg w1 of
             (None, w2) \<Rightarrow> (Inr False, w2)
           | (Some u, w2) \<Rightarrow>
               (case getUserToken sv u w2 of
                  (Inl err, w3) \<Rightarrow> (Inl err, w3)
                | (Inr userToken, w3) \<Rightarrow>
                    (case getAwsCredentials cfg sv userToken w3 of
                       (Inl err, w4) \<Rightarrow> (Inl err, w4)
                     | (Inr _, w4) \<Rightarrow> (Inr True, w4)))))"

text \<open>
  Lines 94-105. \<^verbatim>\<open>signOut()\<close> makes the identity provider forget the user; it,
  \<^verbatim>\<open>clearCachedId()\<close> and the constructor are taken to return normally.
\<close>

definition signOutUser :: "config \<Rightarrow> world \<Rightarrow> world" where
  "signOutUser cfg w =
     (case getCurrentUser cfg w of
        (cu, w1) \<Rightarrow>
          (let w2 = (case cu of
                       None \<Rightarrow> w1
                     | Some u \<Rightarrow> w1\<lparr>currentUser := None, calls := calls w1 @ [SignOut u]\<rparr>);
               p = \<lparr>IdentityPoolId = None, Logins = []\<rparr>
           in case AWS_credentials w2 of
                None \<Rightarrow> w2
              | Some c \<Rightarrow>
                  w2\<lparr>AWS_credentials := Some (CognitoIdentityCredentials p),
                     calls := calls w2 @ [ClearCachedId, NewCredentials p]\<rparr>))"

text \<open>
  The argument object of \<^verbatim>\<open>invokeApig\<close>; \<open>None\<close> is a property left out, which takes the
  default of the parameter list (lines 112-118). The property \<^verbatim>\<open>method\<close> is the field
  \<open>httpMethod\<close>.
\<close>

record apig_args =
  path :: string
  httpMethod :: "string option"
  headers :: "(string \<times> string) list option"
  queryParams :: "(string \<times> string) list option"
  body :: js

text \<open>Lines 112-153.\<close>

definition invokeApig :: "config \<Rightarrow> 'e services \<Rightarrow> apig_args \<Rightarrow> world \<Rightarrow> ('e error + js) \<times> world" where
  "invokeApig cfg sv a w =
     (let method' = (case httpMethod a of None \<Rightarrow> ''GET'' | Some m \<Rightarrow> m);
          headers' = (case headers a of None \<Rightarrow> [] | Some h \<Rightarrow> h);
          queryParams' = (case queryParams a of None \<Rightarrow> [] | Some q \<Rightarrow> q)
      in case authUser cfg sv w of
           (Inl err, w1) \<Rightarrow> (Inl (Thrown err), w1)
         | (Inr False, w1) \<Rightarrow> (Inl (Error ''User is not logged in''), w1)
         | (Inr True, w1) \<Rightarrow>
             (case AWS_credentials w1 of
                None \<Rightarrow> (Inl TypeError, w1)
              | Some c \<Rightarrow>
                  (let client = \<lparr>accessKey = accessKeyId c, secretKey = secretAccessKey c,
                                 client_sessionToken = sessionToken c,
                                 region = apiGateway_REGION cfg, endpoint = apiGateway_URL cfg\<rparr>;
                       req = \<lparr>req_method = method', req_path = path a, req_headers = headers',
                              req_queryParams = queryParams', req_body = body a\<rparr>;
                       signedRequest = signRequest sv client req;
                       w2 = w1\<lparr>calls := calls w1 @ [SignRequest client req]\<rparr>;
                       body' = (if truthy (body a) then Str (JSON_stringify sv (body a)) else body a);
                       init = \<lparr>init_method = method', init_headers = signed_headers signedRequest,
                               init_body = body'\<rparr>;
                       w3 = w2\<lparr>calls := calls w2 @ [Fetch (signed_url signedRequest) init]\<rparr>
                   in case fetch sv (signed_url signedRequest) init of
                        Inl err \<Rightarrow> (Inl (Thrown err), w3)
                      | Inr results \<Rightarrow>
                          if status results \<noteq> 200 then (Inl (Error (text_body results)), w3)
                          else (case JSON_parse sv (text_body results) of
                                  Inl err \<Rightarrow> (Inl (Thrown err), w3)
                                | Inr parsed \<Rightarrow> (Inr parsed, w3)))))"

text \<open>
  Conversions of a template literal: \<^verbatim>\<open>undefined\<close> prints as the word, an integer in
  decimal (below \<open>10^21\<close> in magnitude, which every clock reading is).
\<close>

definition digit :: "nat \<Rightarrow> char" where
  "digit d = ''0123456789'' ! d"

function string_of_nat :: "nat \<Rightarrow> string" where
  "string_of_nat n = (if n < 10 then [digit n] else string_of_nat (n div 10) @ [digit (n mod 10)])"
  by pat_completeness auto
termination
  by (relation "measure id") auto

declare string_of_nat.simps [simp del]

definition Number_toString :: "int \<Rightarrow> string" where
  "Number_toString i = (if i < 0 then CHR ''-'' # string_of_nat (nat (- i)) else string_of_nat (nat i))"

definition String_of :: "string option \<Rightarrow> string" where
  "String_of x = (case x of None \<Rightarrow> ''undefined'' | Some s \<Rightarrow> s)"

text \<open>
  Lines 161-184. The bucket given to \<^verbatim>\<open>new AWS.S3\<close> is sent with every request of that
  client, so it is part of what \<open>upload\<close> receives.
\<close>

definition s3Upload :: "config \<Rightarrow> 'e services \<Rightarrow> upload_file \<Rightarrow> world \<Rightarrow> ('e error + js) \<times> world" where
  "s3Upload cfg sv f w =
     (case authUser cfg sv w of
        (Inl err, w1) \<Rightarrow> (Inl (Thrown err), w1)
      | (Inr False, w1) \<Rightarrow> (Inl (Error ''User is not logged in''), w1)
      | (Inr True, w1) \<Rightarrow>
          (case AWS_credentials w1 of
             None \<Rightarrow> (Inl TypeError, w1)
           | Some c \<Rightarrow>
               (case Date_now sv w1 of
                  (now, w2) \<Rightarrow>
                    (let filename = String_of (identityId c) @ ''-'' @ Number_toString now
                                      @ ''-'' @ file_name f;
                         p = \<lparr>Bucket = s3_BUCKET cfg, Key = filename, Body = f,
                              ContentType = file_type f, ACL = ''public-read''\<rparr>;
                         w3 = w2\<lparr>calls := calls w2 @ [S3Upload p]\<rparr>
                     in case upload sv p of
                          Inl err \<Rightarrow> (Inl (Thrown err), w3)
                        | Inr r \<Rightarrow> (Inr r, w3)))))"

section \<open>The request handlers (lines 1-28 and 185-206)\<close>

text \<open>
  A property read \<^verbatim>\<open>v.k\<close>: it throws a \<^verbatim>\<open>TypeError\<close> on \<^verbatim>\<open>undefined\<close> and \<^verbatim>\<open>null\<close>
  (\<open>None\<close>), gives the property's value on an object, and \<^verbatim>\<open>undefined\<close> where there is no
  such property, as on a primitive value or an array for every property name read below.
\<close>

fun get_prop :: "js \<Rightarrow> string \<Rightarrow> js option" where
  "get_prop Undefined k = None"
| "get_prop Null k = None"
| "get_prop (Obj fs) k = Some (case map_of fs k of None \<Rightarrow> Undefined | Some v \<Rightarrow> v)"
| "get_prop _ k = Some Undefined"

text \<open>
  The handlers' event is whatever value the caller passes. Both handlers read
  \<^verbatim>\<open>event.requestContext.identity.cognitoIdentityId\<close> (lines 15 and 195) and the delete
  handler reads \<^verbatim>\<open>event.pathParameters.id\<close> (line 196) while building \<^verbatim>\<open>params\<close>, before
  the \<^verbatim>\<open>try\<close>: a read that throws there is not caught.
\<close>

definition event_cognitoIdentityId :: "js \<Rightarrow> js option" where
  "event_cognitoIdentityId event =
     (case get_prop event ''requestContext'' of
        None \<Rightarrow> None
      | Some requestContext \<Rightarrow>
          (case get_prop requestContext ''identity'' of
             None \<Rightarrow> None
           | Some identity \<Rightarrow> get_prop identity ''cognitoIdentityId''))"

definition event_pathParameters_id :: "js \<Rightarrow> js option" where
  "event_pathParameters_id event =
     (case get_prop event ''pathParameters'' of
        None \<Rightarrow> None
      | Some pathParameters \<Rightarrow> get_prop pathParameters ''id'')"

text \<open>
  \<^verbatim>\<open>./libs/dynamodb-lib\<close> and \<^verbatim>\<open>./libs/response-lib\<close> are not part of the sources: the
  table call \<open>dbcall\<close> (how the promise of \<^verbatim>\<open>dynamoDbLib.call(action, params)\<close> settles)
  and the response builders \<open>success\<close> and \<open>failure\<close> are parameters, as is the
  handler's \<open>callback\<close>, whose first argument is the error slot (\<open>None\<close> is
  \<^verbatim>\<open>null\<close>). Both handlers are called \<^verbatim>\<open>main\<close> in their files; neither reads its
  \<^verbatim>\<open>context\<close> argument. The builders, the callback and \<^verbatim>\<open>console.log\<close> are taken not to
  throw. A handler's result is \<open>Inl\<close> of the error when \<^verbatim>\<open>main\<close> rejects without having
  called the callback, and \<open>Inr\<close> of the callback's call otherwise.
\<close>

definition list_params :: "js \<Rightarrow> js" where
  "list_params userId =
     Obj [(''TableName'', Str ''notes''),
          (''KeyConditionExpression'', Str ''userId = :userId''),
          (''ExpressionAttributeValues'', Obj [('':userId'', userId)])]"

text \<open>
  Lines 4-28. \<^verbatim>\<open>result.Count\<close> and \<^verbatim>\<open>result.Items\<close> are read inside the \<^verbatim>\<open>try\<close>, so a
  failing read there lands in the \<^verbatim>\<open>catch\<close> like a rejected table call.
\<close>

definition main_list ::
  "(js \<Rightarrow> 'r) \<Rightarrow> (js \<Rightarrow> 'r) \<Rightarrow> (string \<Rightarrow> js \<Rightarrow> 'e + js) \<Rightarrow> js \<Rightarrow> ('e error option \<Rightarrow> 'r \<Rightarrow> 'a)
     \<Rightarrow> 'e error + 'a" where
  "main_list success failure dbcall event callback =
     (case event_cognitoIdentityId event of
        None \<Rightarrow> Inl TypeError
      | Some userId \<Rightarrow>
          (let params = list_params userId
           in Inr (case dbcall ''query'' params of
                     Inl err \<Rightarrow> callback None (failure (Obj [(''status'', Bool False)]))
                   | Inr result \<Rightarrow>
                       (case get_prop result ''Count'' of
                          None \<Rightarrow> callback None (failure (Obj [(''status'', Bool False)]))
                        | Some count \<Rightarrow>
                            (case get_prop result ''Items'' of
                               None \<Rightarrow> callback None (failure (Obj [(''status'', Bool False)]))
                             | Some items \<Rightarrow> callback None (success items))))))"

definition delete_params :: "js \<Rightarrow> js \<Rightarrow> js" where
  "delete_params userId noteId =
     Obj [(''TableName'', Str ''notes''),
          (''Key'', Obj [(''userId'', userId), (''noteId'', noteId)])]"

text \<open>Lines 188-206.\<close>

definition main_delete ::
  "(js \<Rightarrow> 'r) \<Rightarrow> (js \<Rightarrow> 'r) \<Rightarrow> (string \<Rightarrow> js \<Rightarrow> 'e + js) \<Rightarrow> js \<Rightarrow> ('e error option \<Rightarrow> 'r \<Rightarrow> 'a)
     \<Rightarrow> 'e error + 'a" where
  "main_delete success failure dbcall event callback =
     (case event_cognitoIdentityId event of
        None \<Rightarrow> Inl TypeError
      | Some userId \<Rightarrow>
          (case event_pathParameters_id event of
             None \<Rightarrow> Inl TypeError
           | Some noteId \<Rightarrow>
               (let params = delete_params userId noteId
                in Inr (case dbcall ''delete'' params of
                          Inl err \<Rightarrow> callback None (failure (Obj [(''status'', Bool False)]))
                        | Inr result \<Rightarrow> callback None (success (Obj [(''status'', Bool True)]))))))"

section \<open>Sample configuration, services and states\<close>

text \<open>
  Concrete inputs on which the theorems below are instantiated: a configuration, services
  whose clock starts at 1000 ms and advances by one per reading and whose exchange grants
  credentials expiring at 3601000 ms, and three states (nobody signed in, a user signed in
  with no credentials yet, and the same user with granted credentials cached).
\<close>

definition demo_config :: config where
  "demo_config =
     \<lparr>cognito_USER_POOL_ID = ''us-east-1_pool1'', cognito_APP_CLIENT_ID = ''client-1'',
      cognito_REGION = ''us-east-1'', cognito_IDENTITY_POOL_ID = ''idpool-1'',
      apiGateway_REGION = ''us-east-1'', apiGateway_URL = ''https://api.example'',
      s3_BUCKET = ''notes-uploads''\<rparr>"

definition demo_grant :: grant where
  "demo_grant =
     \<lparr>grant_accessKeyId = ''AK'', grant_secretAccessKey = ''SK'', grant_sessionToken = ''ST'',
      grant_expireTime = 3601000, grant_identityId = ''id-7''\<rparr>"

definition demo_services :: "string services" where
  "demo_services =
     \<lparr>times = (\<lambda>n. 1000 + int n),
      getSession = (\<lambda>u. Inr ''abc''),
      refresh = (\<lambda>p. Inr demo_grant),
      signRequest = (\<lambda>c r. \<lparr>signed_headers = req_headers r, signed_url = endpoint c @ req_path r\<rparr>),
      fetch = (\<lambda>url init. Inr \<lparr>status = 200, text_body = ''[]''\<rparr>),
      upload = (\<lambda>p. Inr (Str (Key p))),
      JSON_stringify = (\<lambda>v. ''{}''),
      JSON_parse = (\<lambda>s. Inr (Arr []))\<rparr>"

definition signed_out :: world where
  "signed_out =
     \<lparr>AWS_credentials = None, AWS_region = None, currentUser = None, ticks = 0, calls = []\<rparr>"

definition signed_in :: world where
  "signed_in = signed_out\<lparr>currentUser := Some (CognitoUser ''ann'')\<rparr>"

definition cached :: world where
  "cached = signed_in\<lparr>AWS_credentials := Some (fill demo_grant (CognitoIdentityCredentials
       \<lparr>IdentityPoolId = Some ''idpool-1'', Logins = []\<rparr>))\<rparr>"

definition demo_args :: apig_args where
  "demo_args = \<lparr>path = ''/notes'', httpMethod = None, headers = None, queryParams = None,
                 body = Undefined\<rparr>"

definition demo_file :: upload_file where
  "demo_file = \<lparr>file_name = ''a.txt'', file_type = ''text/plain'', file_content = ''hello''\<rparr>"

text \<open>
  Events: one as the gateway delivers it for an authenticated request to a note, one that
  lacks \<^verbatim>\<open>pathParameters\<close>, and the empty object.
\<close>

definition demo_event :: js where
  "demo_event =
     Obj [(''requestContext'', Obj [(''identity'', Obj [(''cognitoIdentityId'', Str ''id-7'')])]),
          (''pathParameters'', Obj [(''id'', Str ''note-1'')])]"

definition pathless_event :: js where
  "pathless_event =
     Obj [(''requestContext'', Obj [(''identity'', Obj [(''cognitoIdentityId'', Str ''id-7'')])]),
          (''pathParameters'', Null)]"

definition empty_event :: js where
  "empty_event = Obj []"

text \<open>A table that answers every call, and one that rejects every call.\<close>

definition demo_table :: "string \<Rightarrow> js \<Rightarrow> string + js" where
  "demo_table action p =
     (if action = ''query'' then Inr (Obj [(''Items'', Arr [Str ''note-1'']), (''Count'', Num 1)])
      else Inr (Obj []))"

definition failing_table :: "string \<Rightarrow> js \<Rightarrow> string + js" where
  "failing_table action p = Inl ''throttled''"

section \<open>Notions used in the statements\<close>

text \<open>\<open>n\<close> successive calls of \<^verbatim>\<open>authUser\<close>, each in the state the one before left.\<close>

fun repeat_authUser :: "config \<Rightarrow> 'e services \<Rightarrow> nat \<Rightarrow> world \<Rightarrow> ('e + bool) list \<times> world" where
  "repeat_authUser cfg sv 0 w = ([], w)"
| "repeat_authUser cfg sv (Suc n) w =
     (case authUser cfg sv w of
        (r, w1) \<Rightarrow> (case repeat_authUser cfg sv n w1 of (rs, w2) \<Rightarrow> (r # rs, w2)))"

text \<open>The recorded calls that go to the request signer or to the HTTP transport.\<close>

fun signer_or_transport :: "call \<Rightarrow> bool" where
  "signer_or_transport (SignRequest c r) = True"
| "signer_or_transport (Fetch u i) = True"
| "signer_or_transport _ = False"

text \<open>
  Symbolic response builders and a symbolic callback: they keep which builder was applied
  to which body, and what the callback was called with.
\<close>

datatype envelope = Success js | Failure js

datatype ('e, 'r) reply = Reply "'e error option" 'r

text \<open>
  The two envelopes as the specification words them, for comparison with the handlers: a
  success carrying a list of items, or a failure carrying \<^verbatim>\<open>{status: false}\<close>.
\<close>

fun spec_envelope :: "envelope \<Rightarrow> bool" where
  "spec_envelope (Success (Arr items)) = True"
| "spec_envelope (Failure b) = (b = Obj [(''status'', Bool False)])"
| "spec_envelope _ = False"

text \<open>The login parameters that \<^verbatim>\<open>getAwsCredentials\<close> builds from a token (lines 80-89).\<close>

definition login_params :: "config \<Rightarrow> string \<Rightarrow> cognito_params" where
  "login_params cfg userToken =
     \<lparr>IdentityPoolId = Some (cognito_IDENTITY_POOL_ID cfg),
      Logins = [(''cognito-idp.'' @ cognito_REGION cfg @ ''.amazonaws.com/'' @ cognito_USER_POOL_ID cfg,
                 userToken)]\<rparr>"

section \<open>The execution paths of \<^verbatim>\<open>authUser\<close>\<close>

lemma hasValidCredentials_snd:
  "snd (hasValidCredentials sv w) =
     (case AWS_credentials w of None \<Rightarrow> w | Some c \<Rightarrow> w\<lparr>ticks := Suc (ticks w)\<rparr>)"
  by (simp add: hasValidCredentials_def Date_now_def split: option.split)

lemma hasValidCredentials_fields:
  "calls (snd (hasValidCredentials sv w)) = calls w"
  "AWS_credentials (snd (hasValidCredentials sv w)) = AWS_credentials w"
  "currentUser (snd (hasValidCredentials sv w)) = currentUser w"
  by (simp_all add: hasValidCredentials_snd split: option.split)

lemma hasValidCredentials_present:
  "fst (hasValidCredentials sv w) \<Longrightarrow> AWS_credentials w \<noteq> None"
  by (auto simp: hasValidCredentials_def split: option.splits)

lemma authUser_unfold:
  "authUser cfg sv w =
     (if fst (hasValidCredentials sv w) then (Inr True, snd (hasValidCredentials sv w))
      else case getCurrentUser cfg (snd (hasValidCredentials sv w)) of
             (None, w2) \<Rightarrow> (Inr False, w2)
           | (Some u, w2) \<Rightarrow>
               (case getUserToken sv u w2 of
                  (Inl err, w3) \<Rightarrow> (Inl err, w3)
                | (Inr userToken, w3) \<Rightarrow>
                    (case getAwsCredentials cfg sv userToken w3 of
                       (Inl err, w4) \<Rightarrow> (Inl err, w4)
                     | (Inr x, w4) \<Rightarrow> (Inr True, w4))))"
  by (cases "hasValidCredentials sv w") (simp add: authUser_def split: bool.split)

lemma authUser_fast_path:
  assumes "fst (hasValidCredentials sv w)"
  shows "authUser cfg sv w = (Inr True, w\<lparr>ticks := Suc (ticks w)\<rparr>)"
proof -
  from assms obtain c where "AWS_credentials w = Some c"
    using hasValidCredentials_present by blast
  with assms show ?thesis
    by (simp add: authUser_unfold hasValidCredentials_snd)
qed

lemma authUser_nobody:
  assumes "\<not> fst (hasValidCredentials sv w)" and "currentUser w = None"
  shows "authUser cfg sv w =
    (Inr False, (snd (hasValidCredentials sv w))
       \<lparr>calls := calls w @ [GetCurrentUser (cognito_USER_POOL_ID cfg) (cognito_APP_CLIENT_ID cfg)]\<rparr>)"
  using assms by (simp add: authUser_unfold getCurrentUser_def hasValidCredentials_fields)

lemma authUser_session_failed:
  assumes "\<not> fst (hasValidCredentials sv w)" and "currentUser w = Some u"
    and "getSession sv u = Inl err"
  shows "authUser cfg sv w =
    (Inl err, (snd (hasValidCredentials sv w))
       \<lparr>calls := calls w @ [GetCurrentUser (cognito_USER_POOL_ID cfg) (cognito_APP_CLIENT_ID cfg),
                            GetSession u]\<rparr>)"
  using assms
  by (simp add: authUser_unfold getCurrentUser_def getUserToken_def hasValidCredentials_fields)

lemma authUser_exchange_failed:
  assumes "\<not> fst (hasValidCredentials sv w)" and "currentUser w = Some u"
    and "getSession sv u = Inr jwt" and "refresh sv (login_params cfg jwt) = Inl err"
  shows "authUser cfg sv w =
    (Inl err, (snd (hasValidCredentials sv w))
       \<lparr>AWS_region := Some (cognito_REGION cfg),
        AWS_credentials := Some (CognitoIdentityCredentials (login_params cfg jwt)),
        calls := calls w @ [GetCurrentUser (cognito_USER_POOL_ID cfg) (cognito_APP_CLIENT_ID cfg),
                            GetSession u, ConfigUpdate (cognito_REGION cfg),
                            NewCredentials (login_params cfg jwt), GetPromise]\<rparr>)"
  using assms
  by (simp add: authUser_unfold getCurrentUser_def getUserToken_def getAwsCredentials_def
      login_params_def hasValidCredentials_fields Let_def)

lemma authUser_fresh:
  assumes "\<not> fst (hasValidCredentials sv w)" and "currentUser w = Some u"
    and "getSession sv u = Inr jwt" and "refresh sv (login_params cfg jwt) = Inr g"
  shows "authUser cfg sv w =
    (Inr True, (snd (hasValidCredentials sv w))
       \<lparr>AWS_region := Some (cognito_REGION cfg),
        AWS_credentials := Some (fill g (CognitoIdentityCredentials (login_params cfg jwt))),
        calls := calls w @ [GetCurrentUser (cognito_USER_POOL_ID cfg) (cognito_APP_CLIENT_ID cfg),
                            GetSession u, ConfigUpdate (cognito_REGION cfg),
                            NewCredentials (login_params cfg jwt), GetPromise]\<rparr>)"
  using assms
  by (simp add: authUser_unfold getCurrentUser_def getUserToken_def getAwsCredentials_def
      login_params_def hasValidCredentials_fields Let_def)

lemma authUser_paths:
  obtains (fast) "fst (hasValidCredentials sv w)"
  | (nobody) "\<not> fst (hasValidCredentials sv w)" "currentUser w = None"
  | (session_failed) u err where "\<not> fst (hasValidCredentials sv w)" "currentUser w = Some u"
      "getSession sv u = Inl err"
  | (exchange_failed) u jwt err where "\<not> fst (hasValidCredentials sv w)" "currentUser w = Some u"
      "getSession sv u = Inr jwt" "refresh sv (login_params cfg jwt) = Inl err"
  | (fresh) u jwt g where "\<not> fst (hasValidCredentials sv w)" "currentUser w = Some u"
      "getSession sv u = Inr jwt" "refresh sv (login_params cfg jwt) = Inr g"
proof (cases "fst (hasValidCredentials sv w)")
  case True
  then show ?thesis by (rule fast)
next
  case invalid: False
  show ?thesis
  proof (cases "currentUser w")
    case None
    with invalid show ?thesis by (rule nobody)
  next
    case (Some u)
    show ?thesis
    proof (cases "getSession sv u")
      case (Inl err)
      with invalid Some show ?thesis by (rule session_failed)
    next
      case (Inr jwt)
      show ?thesis
      proof (cases "refresh sv (login_params cfg jwt)")
        case (Inl err)
        with invalid Some Inr show ?thesis by (rule exchange_failed)
      next
        case (Inr g)
        with invalid Some \<open>getSession sv u = Inr jwt\<close> show ?thesis by (rule fresh)
      qed
    qed
  qed
qed

lemma authUser_calls_quiet:
  "filter signer_or_transport (calls (snd (authUser cfg sv w))) = filter signer_or_transport (calls w)"
proof (cases rule: authUser_paths [where sv = sv and w = w and cfg = cfg])
  case fast
  then show ?thesis by (simp add: authUser_fast_path)
next
  case nobody
  then show ?thesis by (simp add: authUser_nobody)
next
  case (session_failed u err)
  then show ?thesis by (simp add: authUser_session_failed)
next
  case (exchange_failed u jwt err)
  then show ?thesis by (simp add: authUser_exchange_failed)
next
  case (fresh u jwt g)
  then show ?thesis by (simp add: authUser_fresh)
qed

lemma authUser_refused_last_call:
  assumes "fst (authUser cfg sv w) \<noteq> Inr True"
  shows "\<exists>cs c. calls (snd (authUser cfg sv w)) = cs @ [c] \<and> \<not> signer_or_transport c"
proof (cases rule: authUser_paths [where sv = sv and w = w and cfg = cfg])
  case fast
  with assms show ?thesis by (simp add: authUser_fast_path)
next
  case nobody
  then have "calls (snd (authUser cfg sv w)) =
      calls w @ [GetCurrentUser (cognito_USER_POOL_ID cfg) (cognito_APP_CLIENT_ID cfg)]"
    by (simp add: authUser_nobody)
  then show ?thesis by (metis signer_or_transport.simps(3))
next
  case (session_failed u err)
  then have "calls (snd (authUser cfg sv w)) =
      (calls w @ [GetCurrentUser (cognito_USER_POOL_ID cfg) (cognito_APP_CLIENT_ID cfg)]) @ [GetSession u]"
    by (simp add: authUser_session_failed)
  then show ?thesis by (metis signer_or_transport.simps(4))
next
  case (exchange_failed u jwt err)
  then have "calls (snd (authUser cfg sv w)) =
      (calls w @ [GetCurrentUser (cognito_USER_POOL_ID cfg) (cognito_APP_CLIENT_ID cfg),
         GetSession u, ConfigUpdate (cognito_REGION cfg), NewCredentials (login_params cfg jwt)])
      @ [GetPromise]"
    by (simp add: authUser_exchange_failed)
  then show ?thesis by (metis signer_or_transport.simps(8))
next
  case (fresh u jwt g)
  with assms show ?thesis by (simp add: authUser_fresh)
qed

lemma authUser_True_credentials:
  assumes "fst (authUser cfg sv w) = Inr True"
  shows "AWS_credentials (snd (authUser cfg sv w)) \<noteq> None"
proof (cases rule: authUser_paths [where sv = sv and w = w and cfg = cfg])
  case fast
  then show ?thesis
    using hasValidCredentials_present [of sv w] by (simp add: authUser_fast_path)
next
  case nobody
  with assms show ?thesis by (simp add: authUser_nobody)
next
  case (session_failed u err)
  with assms show ?thesis by (simp add: authUser_session_failed)
next
  case (exchange_failed u jwt err)
  with assms show ?thesis by (simp add: authUser_exchange_failed)
next
  case (fresh u jwt g)
  then show ?thesis by (simp add: authUser_fresh)
qed

section \<open>The credential check and \<^verbatim>\<open>authUser\<close>\<close>

lemmas demo_defs = demo_config_def demo_grant_def demo_services_def signed_out_def signed_in_def
  cached_def

lemmas lib_defs = authUser_def hasValidCredentials_def Date_now_def ToNumber_def getCurrentUser_def
  getUserToken_def getAwsCredentials_def CognitoIdentityCredentials_def fill_def Let_def

text \<open>
  C1. The validity check at the head of \<^verbatim>\<open>authUser\<close>: without a credential set it is false;
  for a cached credential set with expiry \<open>E\<close> it is true exactly when the clock reading is
  strictly below \<open>E - 60000\<close>, so at \<open>E - 60000\<close> itself it is false; and when it is true
  \<^verbatim>\<open>authUser\<close> returns true.
\<close>

theorem credential_check_margin:
  "(AWS_credentials w = None \<longrightarrow> \<not> fst (hasValidCredentials sv w)) \<and>
   (AWS_credentials w = Some c \<and> expireTime c = Some E \<longrightarrow>
      fst (hasValidCredentials sv w) = (times sv (ticks w) < E - 60000)) \<and>
   (AWS_credentials w = Some c \<and> expireTime c = Some E \<and> times sv (ticks w) = E - 60000 \<longrightarrow>
      \<not> fst (hasValidCredentials sv w)) \<and>
   (fst (hasValidCredentials sv w) \<longrightarrow> fst (authUser cfg sv w) = Inr True)"
  by (simp add: hasValidCredentials_def Date_now_def ToNumber_def authUser_unfold)

theorem credential_check_margin_witness:
  "fst (hasValidCredentials demo_services (cached\<lparr>ticks := 3539999\<rparr>)) \<and>
   \<not> fst (hasValidCredentials demo_services (cached\<lparr>ticks := 3540000\<rparr>)) \<and>
   \<not> fst (hasValidCredentials demo_services signed_in) \<and>
   fst (authUser demo_config demo_services (cached\<lparr>ticks := 3539999\<rparr>)) = Inr True"
  using credential_check_margin [of "cached\<lparr>ticks := 3539999\<rparr>" demo_services
      "fill demo_grant (CognitoIdentityCredentials \<lparr>IdentityPoolId = Some ''idpool-1'', Logins = []\<rparr>)"
      3601000 demo_config]
    credential_check_margin [of "cached\<lparr>ticks := 3540000\<rparr>" demo_services
      "fill demo_grant (CognitoIdentityCredentials \<lparr>IdentityPoolId = Some ''idpool-1'', Logins = []\<rparr>)"
      3601000 demo_config]
    credential_check_margin [of signed_in demo_services]
  by (simp add: demo_defs fill_def CognitoIdentityCredentials_def)

text \<open>
  C2. When the cache holds no valid credentials and the identity provider reports no current
  user, \<^verbatim>\<open>authUser\<close> returns false: it resolves, and does not reject.
\<close>

theorem authUser_not_logged_in:
  assumes "\<not> fst (hasValidCredentials sv w)" and "currentUser w = None"
  shows "fst (authUser cfg sv w) = Inr False"
  using assms by (simp add: authUser_nobody)

theorem authUser_not_logged_in_witness:
  "\<not> fst (hasValidCredentials demo_services signed_out) \<and> currentUser signed_out = None \<and>
   fst (authUser demo_config demo_services signed_out) = Inr False"
  using authUser_not_logged_in [of demo_services signed_out demo_config]
  by (simp add: demo_defs hasValidCredentials_def)

lemma repeat_authUser_valid:
  assumes "\<forall>k<n. fst (hasValidCredentials sv (w\<lparr>ticks := ticks w + k\<rparr>))"
  shows "repeat_authUser cfg sv n w = (replicate n (Inr True), w\<lparr>ticks := ticks w + n\<rparr>)"
  using assms
proof (induction n arbitrary: w)
  case 0
  show ?case by simp
next
  case (Suc n)
  have first: "fst (hasValidCredentials sv w)"
    using Suc.prems [rule_format, of 0] by simp
  let ?w1 = "w\<lparr>ticks := Suc (ticks w)\<rparr>"
  have step: "authUser cfg sv w = (Inr True, ?w1)"
    using first by (rule authUser_fast_path)
  have "\<forall>k<n. fst (hasValidCredentials sv (?w1\<lparr>ticks := ticks ?w1 + k\<rparr>))"
  proof (intro allI impI)
    fix k assume "k < n"
    then have "Suc k < Suc n" by simp
    with Suc.prems have "fst (hasValidCredentials sv (w\<lparr>ticks := ticks w + Suc k\<rparr>))"
      by blast
    then show "fst (hasValidCredentials sv (?w1\<lparr>ticks := ticks ?w1 + k\<rparr>))"
      by simp
  qed
  then have "repeat_authUser cfg sv n ?w1 = (replicate n (Inr True), ?w1\<lparr>ticks := ticks ?w1 + n\<rparr>)"
    by (rule Suc.IH)
  with step show ?case by simp
qed

text \<open>
  C3. While the cached credentials are valid at each clock reading, any number of successive
  calls of \<^verbatim>\<open>authUser\<close> all return true and leave the state as it was but for the clock
  readings made: the cached credential set is unchanged and no call to the identity provider
  or to the credential exchange is recorded.
\<close>

theorem authUser_cached_idempotent:
  assumes "\<forall>k<n. fst (hasValidCredentials sv (w\<lparr>ticks := ticks w + k\<rparr>))"
  shows "repeat_authUser cfg sv n w = (replicate n (Inr True), w\<lparr>ticks := ticks w + n\<rparr>) \<and>
         calls (snd (repeat_authUser cfg sv n w)) = calls w \<and>
         AWS_credentials (snd (repeat_authUser cfg sv n w)) = AWS_credentials w"
proof -
  have "repeat_authUser cfg sv n w = (replicate n (Inr True), w\<lparr>ticks := ticks w + n\<rparr>)"
    using assms by (rule repeat_authUser_valid)
  then show ?thesis by simp
qed

theorem authUser_cached_idempotent_witness:
  "repeat_authUser demo_config demo_services 3 cached =
     ([Inr True, Inr True, Inr True], cached\<lparr>ticks := 3\<rparr>) \<and>
   calls (snd (repeat_authUser demo_config demo_services 3 cached)) = calls cached \<and>
   AWS_credentials (snd (repeat_authUser demo_config demo_services 3 cached)) = AWS_credentials cached"
proof -
  have valid: "\<forall>k<3. fst (hasValidCredentials demo_services (cached\<lparr>ticks := ticks cached + k\<rparr>))"
    by (simp add: demo_defs hasValidCredentials_def Date_now_def ToNumber_def fill_def
        CognitoIdentityCredentials_def)
  have "ticks cached = 0"
    by (simp add: demo_defs)
  with authUser_cached_idempotent [OF valid, of demo_config] show ?thesis
    by (simp add: numeral_3_eq_3)
qed

text \<open>
  C4. When the identity provider's session callback receives an error for the current user,
  \<^verbatim>\<open>authUser\<close> rejects with that very error.
\<close>

theorem authUser_session_error:
  assumes "\<not> fst (hasValidCredentials sv w)" and "currentUser w = Some u"
    and "getSession sv u = Inl err"
  shows "fst (authUser cfg sv w) = Inl err"
  using assms by (simp add: authUser_session_failed)

theorem authUser_session_error_witness:
  "\<not> fst (hasValidCredentials (demo_services\<lparr>getSession := \<lambda>u. Inl ''session expired''\<rparr>) signed_in) \<and>
   fst (authUser demo_config (demo_services\<lparr>getSession := \<lambda>u. Inl ''session expired''\<rparr>) signed_in)
     = Inl ''session expired''"
  using authUser_session_error [of "demo_services\<lparr>getSession := \<lambda>u. Inl ''session expired''\<rparr>"
      signed_in "CognitoUser ''ann''" "''session expired''" demo_config]
  by (simp add: demo_defs hasValidCredentials_def)

section \<open>Signing out\<close>

lemma signOutUser_unfold:
  "signOutUser cfg w =
     (let w1 = w\<lparr>calls := calls w @
                  [GetCurrentUser (cognito_USER_POOL_ID cfg) (cognito_APP_CLIENT_ID cfg)]\<rparr>;
          w2 = (case currentUser w of
                  None \<Rightarrow> w1
                | Some u \<Rightarrow> w1\<lparr>currentUser := None, calls := calls w1 @ [SignOut u]\<rparr>)
      in case AWS_credentials w of
           None \<Rightarrow> w2
         | Some c \<Rightarrow>
             w2\<lparr>AWS_credentials := Some (CognitoIdentityCredentials \<lparr>IdentityPoolId = None, Logins = []\<rparr>),
                calls := calls w2 @ [ClearCachedId, NewCredentials \<lparr>IdentityPoolId = None, Logins = []\<rparr>]\<rparr>)"
  by (simp add: signOutUser_def getCurrentUser_def Let_def split: option.split)

lemma signOutUser_credentials:
  "AWS_credentials (signOutUser cfg w) =
     (case AWS_credentials w of
        None \<Rightarrow> None
      | Some c \<Rightarrow> Some (CognitoIdentityCredentials \<lparr>IdentityPoolId = None, Logins = []\<rparr>))"
  by (simp add: signOutUser_unfold Let_def split: option.split)

lemma signOutUser_currentUser: "currentUser (signOutUser cfg w) = None"
  by (simp add: signOutUser_unfold Let_def split: option.split)

lemma signOutUser_region: "AWS_region (signOutUser cfg w) = AWS_region w"
  by (simp add: signOutUser_unfold Let_def split: option.split)

lemma signOutUser_ticks: "ticks (signOutUser cfg w) = ticks w"
  by (simp add: signOutUser_unfold Let_def split: option.split)

lemma signOutUser_twice:
  "signOutUser cfg (signOutUser cfg w) =
     (signOutUser cfg w)\<lparr>calls := calls (signOutUser cfg (signOutUser cfg w))\<rparr>"
proof -
  have "world.more (signOutUser cfg v) = world.more v" for v
    by (simp add: signOutUser_unfold Let_def split: option.split)
  then show ?thesis
    by (intro world.equality)
      (simp_all add: signOutUser_credentials signOutUser_currentUser signOutUser_region
        signOutUser_ticks split: option.split)
qed

text \<open>
  C5. \<^verbatim>\<open>signOutUser\<close> is a total function of the state. A credential set that is held is
  replaced by the explicitly empty one, \<^verbatim>\<open>new AWS.CognitoIdentityCredentials({})\<close>, which is
  present and not absent; absent credentials stay absent; afterwards no user is signed in. A
  second call leaves the state of the first (only the record of calls grows), and with no
  current user and no cached credentials the call changes nothing: it only asks the identity
  provider for the current user.
\<close>

theorem signOutUser_clears:
  "(AWS_credentials w = Some c \<longrightarrow>
      AWS_credentials (signOutUser cfg w) =
        Some (CognitoIdentityCredentials \<lparr>IdentityPoolId = None, Logins = []\<rparr>)) \<and>
   (AWS_credentials w = None \<longrightarrow> AWS_credentials (signOutUser cfg w) = None) \<and>
   currentUser (signOutUser cfg w) = None \<and>
   signOutUser cfg (signOutUser cfg w) =
     (signOutUser cfg w)\<lparr>calls := calls (signOutUser cfg (signOutUser cfg w))\<rparr> \<and>
   (currentUser w = None \<and> AWS_credentials w = None \<longrightarrow>
      signOutUser cfg w =
        w\<lparr>calls := calls w @
           [GetCurrentUser (cognito_USER_POOL_ID cfg) (cognito_APP_CLIENT_ID cfg)]\<rparr>)"
proof (intro conjI impI)
  show "signOutUser cfg (signOutUser cfg w) =
     (signOutUser cfg w)\<lparr>calls := calls (signOutUser cfg (signOutUser cfg w))\<rparr>"
    by (rule signOutUser_twice)
qed (simp_all add: signOutUser_credentials signOutUser_currentUser, simp add: signOutUser_unfold)

theorem signOutUser_clears_witness:
  "AWS_credentials (signOutUser demo_config cached) =
     Some (CognitoIdentityCredentials \<lparr>IdentityPoolId = None, Logins = []\<rparr>) \<and>
   currentUser (signOutUser demo_config cached) = None \<and>
   AWS_credentials (signOutUser demo_config signed_in) = None \<and>
   signOutUser demo_config signed_out = signed_out\<lparr>calls := [GetCurrentUser ''us-east-1_pool1'' ''client-1'']\<rparr> \<and>
   signOutUser demo_config (signOutUser demo_config cached) =
     (signOutUser demo_config cached)\<lparr>calls :=
        [GetCurrentUser ''us-east-1_pool1'' ''client-1'', SignOut (CognitoUser ''ann''), ClearCachedId,
         NewCredentials \<lparr>IdentityPoolId = None, Logins = []\<rparr>,
         GetCurrentUser ''us-east-1_pool1'' ''client-1'', ClearCachedId,
         NewCredentials \<lparr>IdentityPoolId = None, Logins = []\<rparr>]\<rparr>"
  using signOutUser_clears [of cached
      "fill demo_grant (CognitoIdentityCredentials \<lparr>IdentityPoolId = Some ''idpool-1'', Logins = []\<rparr>)"
      demo_config]
    signOutUser_clears [of signed_in _ demo_config]
    signOutUser_clears [of signed_out _ demo_config]
  by (simp add: demo_defs signOutUser_unfold)

section \<open>The gateway call and the upload\<close>

text \<open>
  C6. In a state where \<^verbatim>\<open>authUser\<close> returns false, \<^verbatim>\<open>invokeApig\<close> rejects with
  \<^verbatim>\<open>Error("User is not logged in")\<close> in the state the check left: the request signer and the
  HTTP transport are not called.
\<close>

theorem invokeApig_unauthenticated:
  assumes "fst (authUser cfg sv w) = Inr False"
  shows "invokeApig cfg sv a w = (Inl (Error ''User is not logged in''), snd (authUser cfg sv w)) \<and>
         filter signer_or_transport (calls (snd (invokeApig cfg sv a w))) =
           filter signer_or_transport (calls w)"
proof -
  obtain w1 where au: "authUser cfg sv w = (Inr False, w1)"
    using assms by (cases "authUser cfg sv w") auto
  have res: "invokeApig cfg sv a w = (Inl (Error ''User is not logged in''), w1)"
    by (simp add: invokeApig_def au)
  have "filter signer_or_transport (calls w1) = filter signer_or_transport (calls w)"
    using authUser_calls_quiet [of cfg sv w] by (simp add: au)
  with res au show ?thesis by simp
qed

theorem invokeApig_unauthenticated_witness:
  "fst (authUser demo_config demo_services signed_out) = Inr False \<and>
   invokeApig demo_config demo_services demo_args signed_out =
     (Inl (Error ''User is not logged in''),
      signed_out\<lparr>calls := [GetCurrentUser ''us-east-1_pool1'' ''client-1'']\<rparr>)"
proof -
  have no: "fst (authUser demo_config demo_services signed_out) = Inr False"
    by (simp add: demo_defs lib_defs)
  have "snd (authUser demo_config demo_services signed_out) =
      signed_out\<lparr>calls := [GetCurrentUser ''us-east-1_pool1'' ''client-1'']\<rparr>"
    by (simp add: demo_defs lib_defs)
  with no invokeApig_unauthenticated [OF no, of demo_args] show ?thesis
    by simp
qed

lemma invokeApig_refused_world:
  assumes "fst (authUser cfg sv w) \<noteq> Inr True"
  shows "snd (invokeApig cfg sv a w) = snd (authUser cfg sv w)"
proof (cases "authUser cfg sv w")
  case (Pair r w1)
  show ?thesis
  proof (cases r)
    case (Inl err)
    with Pair show ?thesis by (simp add: invokeApig_def)
  next
    case (Inr b)
    with Pair assms have "b = False" by simp
    with Pair Inr show ?thesis by (simp add: invokeApig_def)
  qed
qed

lemma invokeApig_authenticated:
  assumes "authUser cfg sv w = (Inr True, w1)" and "AWS_credentials w1 = Some c"
  shows "\<exists>client req url' init'.
           calls (snd (invokeApig cfg sv a w)) = calls w1 @ [SignRequest client req, Fetch url' init'] \<and>
           fst (invokeApig cfg sv a w) =
             (case fetch sv url' init' of
                Inl err \<Rightarrow> Inl (Thrown err)
              | Inr results \<Rightarrow>
                  if status results \<noteq> 200 then Inl (Error (text_body results))
                  else (case JSON_parse sv (text_body results) of
                          Inl err \<Rightarrow> Inl (Thrown err)
                        | Inr parsed \<Rightarrow> Inr parsed))"
  using assms by (auto simp: invokeApig_def Let_def split: sum.splits)

text \<open>
  C7. Whenever \<^verbatim>\<open>invokeApig\<close> has called the HTTP transport and received a response: a status
  other than 200 makes the call reject with \<^verbatim>\<open>new Error\<close> of the response's body text; with
  status 200 the call settles as \<^verbatim>\<open>results.json()\<close> does, that is with the body text parsed
  as JSON (and with the parser's error where the text does not parse).
\<close>

theorem invokeApig_response:
  assumes "calls (snd (invokeApig cfg sv a w)) = cs @ [Fetch url init]"
    and "fetch sv url init = Inr r"
  shows "(status r \<noteq> 200 \<longrightarrow> fst (invokeApig cfg sv a w) = Inl (Error (text_body r))) \<and>
         (status r = 200 \<longrightarrow>
            fst (invokeApig cfg sv a w) =
              (case JSON_parse sv (text_body r) of
                 Inl err \<Rightarrow> Inl (Thrown err)
               | Inr parsed \<Rightarrow> Inr parsed))"
proof (cases "fst (authUser cfg sv w) = Inr True")
  case False
  then obtain cs' c where "calls (snd (authUser cfg sv w)) = cs' @ [c]" and "\<not> signer_or_transport c"
    using authUser_refused_last_call by blast
  with False assms(1) have "c = Fetch url init"
    by (simp add: invokeApig_refused_world)
  with \<open>\<not> signer_or_transport c\<close> show ?thesis by simp
next
  case True
  then obtain w1 where au: "authUser cfg sv w = (Inr True, w1)"
    by (cases "authUser cfg sv w") auto
  with True obtain c where "AWS_credentials w1 = Some c"
    using authUser_True_credentials [of cfg sv w] by auto
  with au obtain client req url' init' where
    log: "calls (snd (invokeApig cfg sv a w)) = calls w1 @ [SignRequest client req, Fetch url' init']"
    and res: "fst (invokeApig cfg sv a w) =
             (case fetch sv url' init' of
                Inl err \<Rightarrow> Inl (Thrown err)
              | Inr results \<Rightarrow>
                  if status results \<noteq> 200 then Inl (Error (text_body results))
                  else (case JSON_parse sv (text_body results) of
                          Inl err \<Rightarrow> Inl (Thrown err)
                        | Inr parsed \<Rightarrow> Inr parsed))"
    using invokeApig_authenticated [of cfg sv w w1 c a] by blast
  from log assms(1) have "(calls w1 @ [SignRequest client req]) @ [Fetch url' init'] = cs @ [Fetch url init]"
    by simp
  then have "url' = url \<and> init' = init"
    by (simp only: append1_eq_conv call.inject)
  with res assms(2) show ?thesis by simp
qed

theorem invokeApig_response_witness:
  "fst (invokeApig demo_config demo_services demo_args cached) = Inr (Arr []) \<and>
   fst (invokeApig demo_config
          (demo_services\<lparr>fetch := \<lambda>url init. Inr \<lparr>status = 500, text_body = ''boom''\<rparr>\<rparr>)
          demo_args cached) = Inl (Error ''boom'')"
proof -
  let ?client = "\<lparr>accessKey = Some ''AK'', secretKey = Some ''SK'', client_sessionToken = Some ''ST'',
                   region = ''us-east-1'', endpoint = ''https://api.example''\<rparr>"
  let ?req = "\<lparr>req_method = ''GET'', req_path = ''/notes'', req_headers = [], req_queryParams = [],
                req_body = Undefined\<rparr>"
  let ?init = "\<lparr>init_method = ''GET'', init_headers = [], init_body = Undefined\<rparr>"
  let ?bad = "demo_services\<lparr>fetch := \<lambda>url init. Inr \<lparr>status = 500, text_body = ''boom''\<rparr>\<rparr>"
  have ok_log: "calls (snd (invokeApig demo_config demo_services demo_args cached)) =
      [SignRequest ?client ?req] @ [Fetch ''https://api.example/notes'' ?init]"
    by (simp add: invokeApig_def demo_defs demo_args_def lib_defs)
  have ok_fetch: "fetch demo_services ''https://api.example/notes'' ?init =
      Inr \<lparr>status = 200, text_body = ''[]''\<rparr>"
    by (simp add: demo_defs)
  have bad_log: "calls (snd (invokeApig demo_config ?bad demo_args cached)) =
      [SignRequest ?client ?req] @ [Fetch ''https://api.example/notes'' ?init]"
    by (simp add: invokeApig_def demo_defs demo_args_def lib_defs)
  have bad_fetch: "fetch ?bad ''https://api.example/notes'' ?init =
      Inr \<lparr>status = 500, text_body = ''boom''\<rparr>"
    by (simp add: demo_defs)
  from invokeApig_response [OF ok_log ok_fetch] invokeApig_response [OF bad_log bad_fetch]
  show ?thesis by (simp add: demo_defs)
qed

lemma string_of_nat_digit: "n < 10 \<Longrightarrow> string_of_nat n = [digit n]"
  by (simp add: string_of_nat.simps)

lemma string_of_nat_step:
  "10 \<le> n \<Longrightarrow> string_of_nat n = string_of_nat (n div 10) @ [digit (n mod 10)]"
  by (subst string_of_nat.simps) simp

lemma s3Upload_authenticated:
  assumes "authUser cfg sv w = (Inr True, w1)" and "AWS_credentials w1 = Some c"
  shows "calls (snd (s3Upload cfg sv f w)) =
           calls w1 @
           [S3Upload \<lparr>Bucket = s3_BUCKET cfg,
                      Key = String_of (identityId c) @ ''-'' @ Number_toString (times sv (ticks w1))
                              @ ''-'' @ file_name f,
                      Body = f, ContentType = file_type f, ACL = ''public-read''\<rparr>]"
  using assms by (simp add: s3Upload_def Date_now_def Let_def split: sum.split)

text \<open>
  C8. When \<^verbatim>\<open>authUser\<close> has returned true, \<^verbatim>\<open>s3Upload\<close> makes one upload call, and its
  \<^verbatim>\<open>Key\<close> is the identity id of the current credentials, a hyphen, the clock reading made at
  that moment in decimal, a hyphen, and the file's name.
\<close>

theorem s3Upload_key:
  assumes "fst (authUser cfg sv w) = Inr True"
  shows "\<exists>c. AWS_credentials (snd (authUser cfg sv w)) = Some c \<and>
           calls (snd (s3Upload cfg sv f w)) =
             calls (snd (authUser cfg sv w)) @
             [S3Upload \<lparr>Bucket = s3_BUCKET cfg,
                        Key = String_of (identityId c) @ ''-''
                                @ Number_toString (times sv (ticks (snd (authUser cfg sv w))))
                                @ ''-'' @ file_name f,
                        Body = f, ContentType = file_type f, ACL = ''public-read''\<rparr>]"
proof -
  obtain w1 where au: "authUser cfg sv w = (Inr True, w1)"
    using assms by (cases "authUser cfg sv w") auto
  with assms obtain c where c: "AWS_credentials w1 = Some c"
    using authUser_True_credentials [of cfg sv w] by auto
  from s3Upload_authenticated [OF au c, of f] au c show ?thesis
    by simp
qed

theorem s3Upload_key_witness:
  "fst (authUser demo_config demo_services signed_in) = Inr True \<and>
   last (calls (snd (s3Upload demo_config demo_services demo_file signed_in))) =
     S3Upload \<lparr>Bucket = ''notes-uploads'', Key = ''id-7-1000-a.txt'', Body = demo_file,
                ContentType = ''text/plain'', ACL = ''public-read''\<rparr>"
proof -
  have yes: "fst (authUser demo_config demo_services signed_in) = Inr True"
    by (simp add: demo_defs lib_defs)
  have after: "AWS_credentials (snd (authUser demo_config demo_services signed_in)) =
      Some (fill demo_grant (CognitoIdentityCredentials (login_params demo_config ''abc'')))"
    "ticks (snd (authUser demo_config demo_services signed_in)) = 0"
    by (simp_all add: demo_defs lib_defs login_params_def)
  have "Number_toString (times demo_services 0) = ''1000''"
    by (simp add: demo_defs Number_toString_def string_of_nat_digit string_of_nat_step digit_def)
  with s3Upload_key [OF yes, of demo_file] after yes show ?thesis
    by (auto simp: demo_config_def demo_file_def demo_grant_def fill_def String_of_def)
qed

section \<open>The request handlers\<close>

lemma get_prop_None: "get_prop v k = None \<longleftrightarrow> v = Undefined \<or> v = Null"
  by (cases v) simp_all

lemma get_prop_same_object: "get_prop v k = Some x \<Longrightarrow> get_prop v k' \<noteq> None"
  by (cases v) simp_all

lemma main_list_rejected:
  assumes "event_cognitoIdentityId ev = Some uid" and "dbcall ''query'' (list_params uid) = Inl err"
  shows "main_list success failure dbcall ev callback =
           Inr (callback None (failure (Obj [(''status'', Bool False)])))"
  using assms by (simp add: main_list_def)

lemma main_list_resolved:
  assumes "event_cognitoIdentityId ev = Some uid" and "dbcall ''query'' (list_params uid) = Inr result"
    and "get_prop result ''Items'' = Some items"
  shows "main_list success failure dbcall ev callback = Inr (callback None (success items))"
proof -
  from assms(3) obtain n where "get_prop result ''Count'' = Some n"
    using get_prop_same_object [of result "''Items''" items "''Count''"] by auto
  with assms show ?thesis by (simp add: main_list_def)
qed

lemma main_list_nullish:
  assumes "event_cognitoIdentityId ev = Some uid" and "dbcall ''query'' (list_params uid) = Inr result"
    and "result = Undefined \<or> result = Null"
  shows "main_list success failure dbcall ev callback =
           Inr (callback None (failure (Obj [(''status'', Bool False)])))"
  using assms by (auto simp: main_list_def)

lemma main_list_replies:
  assumes "event_cognitoIdentityId ev = Some uid"
  shows "(\<exists>items. main_list success failure dbcall ev callback = Inr (callback None (success items))) \<or>
         main_list success failure dbcall ev callback =
           Inr (callback None (failure (Obj [(''status'', Bool False)])))"
  using assms by (auto simp: main_list_def split: sum.splits option.splits)

lemma main_delete_rejected:
  assumes "event_cognitoIdentityId ev = Some uid" and "event_pathParameters_id ev = Some nid"
    and "dbcall ''delete'' (delete_params uid nid) = Inl err"
  shows "main_delete success failure dbcall ev callback =
           Inr (callback None (failure (Obj [(''status'', Bool False)])))"
  using assms by (simp add: main_delete_def)

lemma main_delete_resolved:
  assumes "event_cognitoIdentityId ev = Some uid" and "event_pathParameters_id ev = Some nid"
    and "dbcall ''delete'' (delete_params uid nid) = Inr result"
  shows "main_delete success failure dbcall ev callback =
           Inr (callback None (success (Obj [(''status'', Bool True)])))"
  using assms by (simp add: main_delete_def)

lemma main_list_unreadable:
  "event_cognitoIdentityId ev = None \<Longrightarrow> main_list success failure dbcall ev callback = Inl TypeError"
  by (simp add: main_list_def)

lemma main_delete_unreadable:
  "event_cognitoIdentityId ev = None \<or> event_pathParameters_id ev = None \<Longrightarrow>
   main_delete success failure dbcall ev callback = Inl TypeError"
  by (auto simp: main_delete_def split: option.splits)

lemmas event_defs = event_cognitoIdentityId_def event_pathParameters_id_def demo_event_def
  pathless_event_def empty_event_def

text \<open>
  C9, as the code has it. For an event on which the reads before the \<^verbatim>\<open>try\<close> succeed: the
  list handler answers \<^verbatim>\<open>success(result.Items)\<close> when the table call resolves with a value
  other than \<^verbatim>\<open>undefined\<close> and \<^verbatim>\<open>null\<close>, and \<^verbatim>\<open>failure({status: false})\<close> when the table call
  rejects or resolves with \<^verbatim>\<open>undefined\<close> or \<^verbatim>\<open>null\<close>, and it has no third answer; the delete
  handler answers \<^verbatim>\<open>success({status: true})\<close> when the table call resolves and
  \<^verbatim>\<open>failure({status: false})\<close> when it rejects. The failure answer is the same for every
  error: no detail of the error is in it.
\<close>

theorem crud_envelopes:
  "(event_cognitoIdentityId ev = Some uid \<and> dbcall ''query'' (list_params uid) = Inl err \<longrightarrow>
      main_list success failure dbcall ev callback =
        Inr (callback None (failure (Obj [(''status'', Bool False)])))) \<and>
   (event_cognitoIdentityId ev = Some uid \<and> dbcall ''query'' (list_params uid) = Inr result \<and>
    result \<noteq> Undefined \<and> result \<noteq> Null \<longrightarrow>
      (\<exists>items. get_prop result ''Items'' = Some items \<and>
         main_list success failure dbcall ev callback = Inr (callback None (success items)))) \<and>
   (event_cognitoIdentityId ev = Some uid \<and> dbcall ''query'' (list_params uid) = Inr result \<and>
    (result = Undefined \<or> result = Null) \<longrightarrow>
      main_list success failure dbcall ev callback =
        Inr (callback None (failure (Obj [(''status'', Bool False)])))) \<and>
   (event_cognitoIdentityId ev = Some uid \<longrightarrow>
      (\<exists>items. main_list success failure dbcall ev callback = Inr (callback None (success items))) \<or>
      main_list success failure dbcall ev callback =
        Inr (callback None (failure (Obj [(''status'', Bool False)])))) \<and>
   (event_cognitoIdentityId ev = Some uid \<and> event_pathParameters_id ev = Some nid \<and>
    dbcall ''delete'' (delete_params uid nid) = Inl err \<longrightarrow>
      main_delete success failure dbcall ev callback =
        Inr (callback None (failure (Obj [(''status'', Bool False)])))) \<and>
   (event_cognitoIdentityId ev = Some uid \<and> event_pathParameters_id ev = Some nid \<and>
    dbcall ''delete'' (delete_params uid nid) = Inr result' \<longrightarrow>
      main_delete success failure dbcall ev callback =
        Inr (callback None (success (Obj [(''status'', Bool True)]))))"
proof (intro conjI impI)
  assume h: "event_cognitoIdentityId ev = Some uid \<and> dbcall ''query'' (list_params uid) = Inr result \<and>
    result \<noteq> Undefined \<and> result \<noteq> Null"
  then obtain items where items: "get_prop result ''Items'' = Some items"
    using get_prop_None [of result "''Items''"] by auto
  with h have "main_list success failure dbcall ev callback = Inr (callback None (success items))"
    by (simp add: main_list_resolved)
  with items show "\<exists>items. get_prop result ''Items'' = Some items \<and>
         main_list success failure dbcall ev callback = Inr (callback None (success items))"
    by blast
qed (simp_all add: main_list_rejected main_list_nullish main_list_replies main_delete_rejected
    main_delete_resolved)

theorem crud_envelopes_witness:
  "main_list Success Failure demo_table demo_event Reply =
     Inr (Reply None (Success (Arr [Str ''note-1'']))) \<and>
   main_list Success Failure failing_table demo_event Reply =
     Inr (Reply None (Failure (Obj [(''status'', Bool False)]))) \<and>
   main_list Success Failure (\<lambda>action p. Inr Null :: string + js) demo_event Reply =
     Inr (Reply None (Failure (Obj [(''status'', Bool False)]))) \<and>
   main_delete Success Failure demo_table demo_event Reply =
     Inr (Reply None (Success (Obj [(''status'', Bool True)]))) \<and>
   main_delete Success Failure failing_table demo_event Reply =
     Inr (Reply None (Failure (Obj [(''status'', Bool False)])))"
proof -
  have ev: "event_cognitoIdentityId demo_event = Some (Str ''id-7'')"
    "event_pathParameters_id demo_event = Some (Str ''note-1'')"
    by (simp_all add: event_defs)
  have items: "get_prop (Obj [(''Items'', Arr [Str ''note-1'']), (''Count'', Num 1)]) ''Items'' =
      Some (Arr [Str ''note-1''])"
    by simp
  from ev items
    crud_envelopes [of demo_event "Str ''id-7''" demo_table "''none''" Success Failure Reply
      "Obj [(''Items'', Arr [Str ''note-1'']), (''Count'', Num 1)]" "Str ''note-1''" "Obj []"]
    crud_envelopes [of demo_event "Str ''id-7''" failing_table "''throttled''" Success Failure Reply
      Null "Str ''note-1''" Null]
    crud_envelopes [of demo_event "Str ''id-7''" "\<lambda>action p. Inr Null" "''none''" Success Failure
      Reply Null "Str ''note-1''" Null]
  show ?thesis
    by (simp add: demo_table_def failing_table_def)
qed

text \<open>
  The claim as worded fails on the delete handler: when the table call resolves, its answer is
  \<^verbatim>\<open>success({status: true})\<close>, which is neither a list of items nor \<^verbatim>\<open>{status: false}\<close>,
  while the list handler's answer on the same table is one of the two envelopes.
\<close>

theorem crud_envelopes_counterexample:
  "main_delete Success Failure demo_table demo_event Reply =
     Inr (Reply None (Success (Obj [(''status'', Bool True)]))) \<and>
   \<not> spec_envelope (Success (Obj [(''status'', Bool True)])) \<and>
   main_list Success Failure demo_table demo_event Reply =
     Inr (Reply None (Success (Arr [Str ''note-1'']))) \<and>
   spec_envelope (Success (Arr [Str ''note-1'']))"
  by (simp add: main_delete_def main_list_def list_params_def delete_params_def demo_table_def
      event_defs)

text \<open>
  C10, as the code has it. For an event on which the reads before the \<^verbatim>\<open>try\<close> succeed
  (\<^verbatim>\<open>event.requestContext.identity\<close> is there, and for the delete handler
  \<^verbatim>\<open>event.pathParameters\<close> too), each handler calls its callback, on the success and on the
  failure path alike, with \<^verbatim>\<open>null\<close> in the error slot: the caught error is not handed to the
  callback. On any other event the handler rejects with the \<^verbatim>\<open>TypeError\<close> of the failing
  read and does not call its callback; so whenever the callback is called, its error slot is
  \<^verbatim>\<open>null\<close>.
\<close>

theorem handlers_callback_null:
  "(event_cognitoIdentityId ev = Some uid \<longrightarrow>
      (\<exists>r. main_list success failure dbcall ev callback = Inr (callback None r))) \<and>
   (event_cognitoIdentityId ev = Some uid \<and> event_pathParameters_id ev = Some nid \<longrightarrow>
      (\<exists>r. main_delete success failure dbcall ev callback = Inr (callback None r))) \<and>
   (event_cognitoIdentityId ev = None \<longrightarrow>
      main_list success failure dbcall ev callback = Inl TypeError) \<and>
   (event_cognitoIdentityId ev = None \<or> event_pathParameters_id ev = None \<longrightarrow>
      main_delete success failure dbcall ev callback = Inl TypeError) \<and>
   (case main_list success failure dbcall ev Reply of
      Inl e \<Rightarrow> e = TypeError
    | Inr (Reply e r) \<Rightarrow> e = None) \<and>
   (case main_delete success failure dbcall ev Reply of
      Inl e \<Rightarrow> e = TypeError
    | Inr (Reply e r) \<Rightarrow> e = None)"
proof (intro conjI impI)
  assume "event_cognitoIdentityId ev = Some uid"
  then show "\<exists>r. main_list success failure dbcall ev callback = Inr (callback None r)"
    using main_list_replies [of ev uid success failure dbcall callback] by blast
next
  assume h: "event_cognitoIdentityId ev = Some uid \<and> event_pathParameters_id ev = Some nid"
  show "\<exists>r. main_delete success failure dbcall ev callback = Inr (callback None r)"
  proof (cases "dbcall ''delete'' (delete_params uid nid)")
    case (Inl err)
    with h show ?thesis by (auto simp: main_delete_rejected)
  next
    case (Inr result)
    with h show ?thesis by (auto simp: main_delete_resolved)
  qed
next
  show "case main_list success failure dbcall ev Reply of
      Inl e \<Rightarrow> e = TypeError
    | Inr (Reply e r) \<Rightarrow> e = None"
    by (simp add: main_list_def split: option.split sum.split)
next
  show "case main_delete success failure dbcall ev Reply of
      Inl e \<Rightarrow> e = TypeError
    | Inr (Reply e r) \<Rightarrow> e = None"
    by (simp add: main_delete_def split: option.split sum.split)
qed (simp_all add: main_list_unreadable main_delete_unreadable)

theorem handlers_callback_null_witness:
  "main_list Success Failure failing_table demo_event Reply =
     Inr (Reply None (Failure (Obj [(''status'', Bool False)]))) \<and>
   main_delete Success Failure failing_table demo_event Reply =
     Inr (Reply None (Failure (Obj [(''status'', Bool False)]))) \<and>
   (case main_list Success Failure demo_table demo_event Reply of
      Inl e \<Rightarrow> e = TypeError
    | Inr (Reply e r) \<Rightarrow> e = None) \<and>
   (case main_delete Success Failure demo_table demo_event Reply of
      Inl e \<Rightarrow> e = TypeError
    | Inr (Reply e r) \<Rightarrow> e = None) \<and>
   main_list Success Failure demo_table Undefined Reply = Inl TypeError \<and>
   main_delete Success Failure demo_table pathless_event Reply = Inl TypeError"
proof -
  have ev: "event_cognitoIdentityId demo_event = Some (Str ''id-7'')"
    "event_pathParameters_id demo_event = Some (Str ''note-1'')"
    "event_cognitoIdentityId Undefined = None"
    "event_pathParameters_id pathless_event = None"
    by (simp_all add: event_defs)
  from ev
    handlers_callback_null [of demo_event "Str ''id-7''" Success Failure failing_table Reply
      "Str ''note-1''"]
    handlers_callback_null [of demo_event "Str ''id-7''" Success Failure demo_table Reply
      "Str ''note-1''"]
    handlers_callback_null [of Undefined Null Success Failure demo_table Reply Null]
    handlers_callback_null [of pathless_event "Str ''id-7''" Success Failure demo_table Reply Null]
  show ?thesis
    by (simp add: main_list_def main_delete_def list_params_def delete_params_def
        failing_table_def)
qed

text \<open>
  The claim as worded, for every invocation, fails on an event without
  \<^verbatim>\<open>requestContext\<close>: the read on line 15 (line 195 in the delete handler) throws before
  the \<^verbatim>\<open>try\<close>, the handler rejects, and the callback is not called at all. The same happens
  in the delete handler on an event whose \<^verbatim>\<open>pathParameters\<close> is \<^verbatim>\<open>null\<close>.
\<close>

theorem handlers_callback_null_counterexample:
  "main_list Success Failure demo_table empty_event Reply = Inl TypeError \<and>
   main_delete Success Failure demo_table empty_event Reply = Inl TypeError \<and>
   main_delete Success Failure demo_table pathless_event Reply = Inl TypeError"
  by (simp add: main_list_def main_delete_def event_defs)

end
